theory Spec2Isabelle
  imports Complex_Main
begin

section \<open>The response simplifier of mcp-google-travels\<close>

text \<open>
  A shallow embedding of the response-simplification functions
  (\<^verbatim>\<open>simplifyFlightResponse\<close>, \<^verbatim>\<open>simplifyFlightOption\<close>,
  \<^verbatim>\<open>simplifyHotelResponse\<close>, \<^verbatim>\<open>simplifyHotelProperty\<close>,
  \<^verbatim>\<open>formatDuration\<close>, \<^verbatim>\<open>generateHotelId\<close>,
  \<^verbatim>\<open>buildFlightHighlights\<close>).

  The source takes its argument as \<^verbatim>\<open>any\<close>. The raw payload is modelled by
  records in which every field the source reads is optional: \<open>None\<close> is the
  JavaScript \<^verbatim>\<open>undefined\<close> of an absent field (a \<^verbatim>\<open>null\<close> field behaves
  alike under \<^verbatim>\<open>?.\<close>, \<^verbatim>\<open>||\<close> and \<^verbatim>\<open><\<close>). A present field has the
  type the provider documents for it: a string, a number, an object or an array of
  objects. Numbers that the source computes with (minutes, prices, the emission
  percentage, the clock) are integers; the rating and the review count are passed
  through unread, and so are the search parameters and the price insights, whose type
  is left open.
  Fields named \<^verbatim>\<open>name\<close>, \<^verbatim>\<open>id\<close>, \<^verbatim>\<open>time\<close>,
  \<^verbatim>\<open>type\<close>, \<^verbatim>\<open>price\<close>, \<^verbatim>\<open>airline\<close> occur in several
  objects of the source; here each carries a prefix naming its object.
\<close>

subsection \<open>JavaScript values and operators\<close>

text \<open>Reading a property of \<^verbatim>\<open>undefined\<close> throws a TypeError.\<close>

datatype js_error = TypeError

definition bind_e :: "js_error + 'a \<Rightarrow> ('a \<Rightarrow> js_error + 'b) \<Rightarrow> js_error + 'b" where
  "bind_e m f = (case m of Inl e \<Rightarrow> Inl e | Inr v \<Rightarrow> f v)"

text \<open>\<^verbatim>\<open>x.f\<close>: the plain member access, which throws when \<open>x\<close> is undefined.\<close>

definition get_member :: "'a option \<Rightarrow> ('a \<Rightarrow> 'b) \<Rightarrow> js_error + 'b" where
  "get_member x f = (case x of None \<Rightarrow> Inl TypeError | Some v \<Rightarrow> Inr (f v))"

text \<open>\<^verbatim>\<open>x?.f\<close>: the optional chain, undefined when \<open>x\<close> is undefined.\<close>

definition opt_chain :: "'a option \<Rightarrow> ('a \<Rightarrow> 'b option) \<Rightarrow> 'b option" where
  "opt_chain x f = (case x of None \<Rightarrow> None | Some v \<Rightarrow> f v)"

text \<open>\<^verbatim>\<open>xs[i]\<close> on an array: undefined outside \<open>0 .. length - 1\<close>.\<close>

definition at_index :: "'a list \<Rightarrow> int \<Rightarrow> 'a option" where
  "at_index xs i = (if 0 \<le> i \<and> i < int (length xs) then Some (xs ! nat i) else None)"

text \<open>
  \<^verbatim>\<open>a || b\<close> yields \<open>b\<close> when \<open>a\<close> is falsy. An object is always truthy;
  a string is falsy when empty; a number is falsy when \<open>0\<close>; undefined is falsy.
\<close>

definition obj_or :: "'a option \<Rightarrow> 'a \<Rightarrow> 'a" where
  "obj_or a b = (case a of None \<Rightarrow> b | Some v \<Rightarrow> v)"

definition truthy_str :: "string option \<Rightarrow> bool" where
  "truthy_str a = (case a of None \<Rightarrow> False | Some s \<Rightarrow> s \<noteq> [])"

definition str_or :: "string option \<Rightarrow> string \<Rightarrow> string" where
  "str_or a b = (case a of None \<Rightarrow> b | Some s \<Rightarrow> if s = [] then b else s)"

definition num_or :: "int option \<Rightarrow> int \<Rightarrow> int" where
  "num_or a b = (case a of None \<Rightarrow> b | Some n \<Rightarrow> if n = 0 then b else n)"

text \<open>\<^verbatim>\<open>x < 0\<close>: false when \<open>x\<close> is undefined (it converts to NaN).\<close>

definition lt_zero :: "int option \<Rightarrow> bool" where
  "lt_zero x = (case x of None \<Rightarrow> False | Some n \<Rightarrow> n < 0)"

text \<open>
  The decimal rendering of an integer inside a template literal (JavaScript switches to
  the exponent form from \<open>10\<^sup>2\<^sup>1\<close> on; the numbers here stay below).
\<close>

definition digit_char :: "int \<Rightarrow> char" where
  "digit_char d = ''0123456789'' ! nat d"

function digits :: "int \<Rightarrow> string" where
  "digits n = (if n < 10 then [digit_char n] else digits (n div 10) @ [digit_char (n mod 10)])"
  by pat_completeness auto
termination
  by (relation "measure nat") auto

declare digits.simps [simp del]

definition show_int :: "int \<Rightarrow> string" where
  "show_int i = (if i < 0 then CHR ''-'' # digits (- i) else digits i)"

text \<open>\<^verbatim>\<open>${Math.abs(x)}\<close>: \<^verbatim>\<open>Math.abs(undefined)\<close> is NaN.\<close>

definition show_abs :: "int option \<Rightarrow> string" where
  "show_abs x = (case x of None \<Rightarrow> ''NaN'' | Some n \<Rightarrow> show_int (abs n))"

text \<open>\<^verbatim>\<open>${s}\<close> for a string that may be undefined.\<close>

definition show_str :: "string option \<Rightarrow> string" where
  "show_str x = (case x of None \<Rightarrow> ''undefined'' | Some s \<Rightarrow> s)"

text \<open>\<^verbatim>\<open>a % b\<close> truncates towards zero: the sign of the result is that of \<open>a\<close>.\<close>

definition js_rem :: "int \<Rightarrow> int \<Rightarrow> int" where
  "js_rem a b = (if a < 0 then - ((- a) mod \<bar>b\<bar>) else a mod \<bar>b\<bar>)"

subsection \<open>The raw flight payload\<close>

record raw_airport =
  airport_name :: "string option"
  airport_id :: "string option"
  airport_time :: "string option"

record raw_leg =
  departure_airport :: "raw_airport option"
  arrival_airport :: "raw_airport option"
  leg_airline :: "string option"
  flight_number :: "string option"
  legroom :: "string option"
  travel_class :: "string option"

record raw_carbon =
  difference_percent :: "int option"

record raw_flight_option =
  flights :: "raw_leg list option"
  total_duration :: "int option"
  option_price :: "int option"
  option_type :: "string option"
  booking_token :: "string option"
  departure_token :: "string option"
  carbon_emissions :: "raw_carbon option"

record raw_metadata =
  google_flights_url :: "string option"

record 'j raw_flight_result =
  best_flights :: "raw_flight_option list option"
  other_flights :: "raw_flight_option list option"
  search_parameters :: "'j option"
  search_metadata :: "raw_metadata option"
  price_insights :: "'j option"

subsection \<open>The simplified flight response\<close>

record endpoint =
  airport :: string
  code :: string
  time :: string

record simplified_flight =
  airline :: string
  flightNumber :: string
  departure :: endpoint
  arrival :: endpoint
  duration :: string
  stops :: int
  price :: int
  currency :: string
  bookingToken :: "string option"
  departureToken :: "string option"
  highlights :: "string list"

record price_range =
  range_min :: int
  range_max :: int

record 'j flight_summary =
  searchParams :: "'j option"
  totalResults :: nat
  priceRange :: "price_range option"
  googleFlightsUrl :: "string option"

record 'j flight_response =
  summary :: "'j flight_summary"
  bestFlights :: "simplified_flight list"
  otherFlights :: "simplified_flight list"
  priceInsights :: "'j option"

subsection \<open>Helper functions\<close>

definition formatDuration :: "int \<Rightarrow> string" where
  "formatDuration minutes =
     (let hours = minutes div 60;
          mins = js_rem minutes 60
      in show_int hours @ ''h '' @ show_int mins @ ''m'')"

text \<open>
  \<^verbatim>\<open>buildFlightHighlights\<close> pushes up to four strings and keeps the first three.
  The accesses \<^verbatim>\<open>option.carbon_emissions.difference_percent\<close>,
  \<^verbatim>\<open>firstFlight.legroom\<close> and \<^verbatim>\<open>firstFlight.travel_class\<close> inside the
  branches are plain member accesses.
\<close>

definition buildFlightHighlights :: "raw_flight_option \<Rightarrow> js_error + string list" where
  "buildFlightHighlights opt =
     bind_e (if lt_zero (opt_chain (carbon_emissions opt) difference_percent)
             then bind_e (get_member (carbon_emissions opt) difference_percent)
                    (\<lambda>p. Inr [show_abs p @ ''% less CO2''])
             else Inr [])
       (\<lambda>h1. let firstFlight = opt_chain (flights opt) (\<lambda>fs. at_index fs 0) in
          bind_e (if truthy_str (opt_chain firstFlight legroom)
                  then bind_e (get_member firstFlight legroom)
                         (\<lambda>l. Inr (h1 @ [''Legroom: '' @ show_str l]))
                  else Inr h1)
            (\<lambda>h2. bind_e (if truthy_str (opt_chain firstFlight travel_class)
                           then bind_e (get_member firstFlight travel_class)
                                  (\<lambda>c. Inr (h2 @ [show_str c]))
                           else Inr h2)
               (\<lambda>h3. let h4 = (if truthy_str (option_type opt)
                                then h3 @ [show_str (option_type opt)] else h3)
                      in Inr (take 3 h4))))"

subsection \<open>The flight option projection\<close>

text \<open>The object literal \<^verbatim>\<open>{}\<close>: every field is undefined.\<close>

definition empty_leg :: raw_leg where
  "empty_leg = \<lparr>departure_airport = None, arrival_airport = None, leg_airline = None,
                 flight_number = None, legroom = None, travel_class = None\<rparr>"

text \<open>
  \<^verbatim>\<open>option.flights?.[option.flights.length - 1]\<close>: the index expression is
  evaluated only when \<^verbatim>\<open>option.flights\<close> is defined, and reads
  \<^verbatim>\<open>option.flights.length\<close> by a plain member access.
\<close>

definition last_leg :: "raw_flight_option \<Rightarrow> js_error + raw_leg option" where
  "last_leg opt =
     (case flights opt of
        None \<Rightarrow> Inr None
      | Some fs \<Rightarrow> bind_e (get_member (flights opt) (\<lambda>a. int (length a)))
                     (\<lambda>n. Inr (at_index fs (n - 1))))"

definition simplifyFlightOption :: "raw_flight_option \<Rightarrow> js_error + simplified_flight" where
  "simplifyFlightOption opt =
     (let firstFlight = obj_or (opt_chain (flights opt) (\<lambda>fs. at_index fs 0)) empty_leg in
      bind_e (last_leg opt) (\<lambda>l.
      let lastFlight = obj_or l firstFlight in
      bind_e (buildFlightHighlights opt) (\<lambda>hl.
      Inr \<lparr>airline = str_or (leg_airline firstFlight) ''Unknown'',
           flightNumber = str_or (flight_number firstFlight) '''',
           departure =
             \<lparr>airport = str_or (opt_chain (departure_airport firstFlight) airport_name) '''',
              code = str_or (opt_chain (departure_airport firstFlight) airport_id) '''',
              time = str_or (opt_chain (departure_airport firstFlight) airport_time) ''''\<rparr>,
           arrival =
             \<lparr>airport = str_or (opt_chain (arrival_airport lastFlight) airport_name) '''',
              code = str_or (opt_chain (arrival_airport lastFlight) airport_id) '''',
              time = str_or (opt_chain (arrival_airport lastFlight) airport_time) ''''\<rparr>,
           duration = formatDuration (num_or (total_duration opt) 0),
           stops = num_or (map_option (\<lambda>fs. int (length fs)) (flights opt)) 1 - 1,
           price = num_or (option_price opt) 0,
           currency = ''USD'',
           bookingToken = booking_token opt,
           departureToken = departure_token opt,
           highlights = hl\<rparr>)))"

subsection \<open>The flight response\<close>

text \<open>\<^verbatim>\<open>xs.map(f)\<close> where \<open>f\<close> may throw: the first exception ends the traversal.\<close>

fun map_e :: "('a \<Rightarrow> js_error + 'b) \<Rightarrow> 'a list \<Rightarrow> js_error + 'b list" where
  "map_e f [] = Inr []"
| "map_e f (x # xs) = bind_e (f x) (\<lambda>y. bind_e (map_e f xs) (\<lambda>ys. Inr (y # ys)))"

text \<open>
  \<^verbatim>\<open>allPrices.length > 0 ? {min: Math.min(...allPrices), max: Math.max(...allPrices)} : undefined\<close>,
  with \<^verbatim>\<open>Math.min\<close> and \<^verbatim>\<open>Math.max\<close> as folds over the arguments.
\<close>

definition price_range_of :: "int list \<Rightarrow> price_range option" where
  "price_range_of allPrices =
     (case allPrices of
        [] \<Rightarrow> None
      | p # ps \<Rightarrow> Some \<lparr>range_min = fold min ps p, range_max = fold max ps p\<rparr>)"

definition simplifyFlightResponse :: "'j raw_flight_result \<Rightarrow> js_error + 'j flight_response" where
  "simplifyFlightResponse serpApiResponse =
     bind_e (map_e simplifyFlightOption (obj_or (best_flights serpApiResponse) [])) (\<lambda>best.
     bind_e (map_e simplifyFlightOption (obj_or (other_flights serpApiResponse) [])) (\<lambda>other.
     let allPrices = map price (best @ other);
         pr = price_range_of allPrices
     in Inr \<lparr>summary =
               \<lparr>searchParams = search_parameters serpApiResponse,
                totalResults = length best + length other,
                priceRange = pr,
                googleFlightsUrl = opt_chain (search_metadata serpApiResponse) google_flights_url\<rparr>,
             bestFlights = best,
             otherFlights = take 5 other,
             priceInsights = price_insights serpApiResponse\<rparr>))"

subsection \<open>The raw hotel payload and the simplified hotel response\<close>

record raw_rate =
  extracted_lowest :: "int option"

record raw_hotel_property =
  property_token :: "string option"
  prop_name :: "string option"
  prop_type :: "string option"
  overall_rating :: "rat option"
  reviews :: "int option"
  rate_per_night :: "raw_rate option"
  total_rate :: "raw_rate option"
  neighborhood :: "string option"
  location :: "string option"
  link :: "string option"
  amenities :: "string list option"
  check_in_time :: "string option"
  check_out_time :: "string option"

record 'j raw_hotel_result =
  properties :: "raw_hotel_property list option"
  hotel_search_parameters :: "'j option"

record simplified_hotel =
  hotelId :: string
  hotel_name :: string
  hotel_type :: string
  rating :: "rat option"
  reviewCount :: "int option"
  pricePerNight :: int
  totalPrice :: int
  hotel_currency :: string
  hotel_location :: string
  propertyToken :: string
  bookingLink :: "string option"
  hotel_amenities :: "string list option"
  checkIn :: "string option"
  checkOut :: "string option"

record 'j hotel_summary =
  hotel_searchParams :: "'j option"
  hotel_totalResults :: nat
  hotel_priceRange :: "price_range option"

record 'j hotel_response =
  hotel_summary :: "'j hotel_summary"
  hotel_properties :: "simplified_hotel list"

subsection \<open>The hotel property projection\<close>

text \<open>
  \<^verbatim>\<open>\s\<close> on the characters below 256: tab, line feed, vertical tab, form feed,
  carriage return, space and the no-break space.
\<close>

definition is_space :: "char \<Rightarrow> bool" where
  "is_space c = (of_char c \<in> {9, 10, 11, 12, 13, 32, 160 :: nat})"

text \<open>\<^verbatim>\<open>s.replace(/\s+/g, '-')\<close>: every maximal run of white space becomes one hyphen.\<close>

function replace_ws :: "string \<Rightarrow> string" where
  "replace_ws [] = []"
| "replace_ws (c # cs) =
     (if is_space c then CHR ''-'' # replace_ws (dropWhile is_space cs)
      else c # replace_ws cs)"
  by pat_completeness auto
termination
proof (relation "measure length")
  show "wf (measure length)" by simp
next
  fix c cs
  have "length (dropWhile is_space cs) \<le> length cs" by (rule length_dropWhile_le)
  then show "(dropWhile is_space cs, c # cs) \<in> measure length" by simp
next
  fix c :: char and cs :: string
  show "(cs, c # cs) \<in> measure length" by simp
qed

text \<open>
  \<^verbatim>\<open>generateHotelId\<close> reads the clock: \<open>now\<close> is the value of
  \<^verbatim>\<open>Date.now()\<close> at the call.
\<close>

definition generateHotelId :: "int \<Rightarrow> raw_hotel_property \<Rightarrow> string" where
  "generateHotelId now prop =
     ''HTL-'' @ show_str (map_option (\<lambda>n. take 20 (replace_ws n)) (prop_name prop))
       @ ''-'' @ show_int now"

definition simplifyHotelProperty :: "int \<Rightarrow> raw_hotel_property \<Rightarrow> simplified_hotel" where
  "simplifyHotelProperty now prop =
     \<lparr>hotelId = str_or (property_token prop) (generateHotelId now prop),
      hotel_name = str_or (prop_name prop) ''Unknown Property'',
      hotel_type = str_or (prop_type prop) ''hotel'',
      rating = overall_rating prop,
      reviewCount = reviews prop,
      pricePerNight = num_or (opt_chain (rate_per_night prop) extracted_lowest) 0,
      totalPrice = num_or (opt_chain (total_rate prop) extracted_lowest) 0,
      hotel_currency = ''USD'',
      hotel_location = str_or (neighborhood prop) (str_or (location prop) ''''),
      propertyToken = str_or (property_token prop) '''',
      bookingLink = link prop,
      hotel_amenities = map_option (take 5) (amenities prop),
      checkIn = check_in_time prop,
      checkOut = check_out_time prop\<rparr>"

subsection \<open>The hotel response\<close>

text \<open>
  The projection of the property at index \<open>i\<close> reads the clock at most once;
  \<open>clock i\<close> is what \<^verbatim>\<open>Date.now()\<close> returns during that call.
  \<open>projected_properties\<close> is the local constant \<^verbatim>\<open>properties\<close> of
  \<^verbatim>\<open>simplifyHotelResponse\<close>: the projection of every raw property.
\<close>

definition projected_properties :: "(nat \<Rightarrow> int) \<Rightarrow> 'j raw_hotel_result \<Rightarrow> simplified_hotel list" where
  "projected_properties clock serpApiResponse =
     map (\<lambda>(i, prop). simplifyHotelProperty (clock i) prop)
       (enumerate 0 (obj_or (properties serpApiResponse) []))"

definition simplifyHotelResponse :: "(nat \<Rightarrow> int) \<Rightarrow> 'j raw_hotel_result \<Rightarrow> 'j hotel_response" where
  "simplifyHotelResponse clock serpApiResponse =
     (let props = projected_properties clock serpApiResponse;
          allPrices = filter (\<lambda>p. p > 0) (map pricePerNight props);
          pr = price_range_of allPrices
      in \<lparr>hotel_summary =
            \<lparr>hotel_searchParams = hotel_search_parameters serpApiResponse,
             hotel_totalResults = length props,
             hotel_priceRange = pr\<rparr>,
          hotel_properties = take 10 props\<rparr>)"

subsection \<open>The highlight items, in words\<close>

text \<open>
  The four items a flight option may contribute, in their priority order. An item
  qualifies when its source field has a value: the percentage is present and negative;
  the string is present and not empty.
\<close>

definition first_leg :: "raw_flight_option \<Rightarrow> raw_leg option" where
  "first_leg opt =
     (case flights opt of None \<Rightarrow> None | Some [] \<Rightarrow> None | Some (l # ls) \<Rightarrow> Some l)"

definition co2_highlight :: "raw_flight_option \<Rightarrow> string list" where
  "co2_highlight opt =
     (case carbon_emissions opt of
        None \<Rightarrow> []
      | Some c \<Rightarrow> (case difference_percent c of
                    None \<Rightarrow> []
                  | Some p \<Rightarrow> if p < 0 then [show_int \<bar>p\<bar> @ ''% less CO2''] else []))"

definition legroom_highlight :: "raw_flight_option \<Rightarrow> string list" where
  "legroom_highlight opt =
     (case first_leg opt of
        None \<Rightarrow> []
      | Some l \<Rightarrow> (case legroom l of
                    None \<Rightarrow> []
                  | Some s \<Rightarrow> if s = [] then [] else [''Legroom: '' @ s]))"

definition class_highlight :: "raw_flight_option \<Rightarrow> string list" where
  "class_highlight opt =
     (case first_leg opt of
        None \<Rightarrow> []
      | Some l \<Rightarrow> (case travel_class l of
                    None \<Rightarrow> []
                  | Some s \<Rightarrow> if s = [] then [] else [s]))"

definition type_highlight :: "raw_flight_option \<Rightarrow> string list" where
  "type_highlight opt =
     (case option_type opt of None \<Rightarrow> [] | Some s \<Rightarrow> if s = [] then [] else [s])"

definition qualifying_highlights :: "raw_flight_option \<Rightarrow> string list" where
  "qualifying_highlights opt =
     co2_highlight opt @ legroom_highlight opt @ class_highlight opt @ type_highlight opt"

subsection \<open>Null payloads and null list elements\<close>

text \<open>
  The source declares its parameters \<^verbatim>\<open>any\<close> and checks nothing: the payload may be
  \<^verbatim>\<open>null\<close>, and a list may hold \<^verbatim>\<open>null\<close> elements. Each of the four functions
  reads its parameter by plain member accesses only
  (\<^verbatim>\<open>serpApiResponse.best_flights\<close>, \<^verbatim>\<open>option.flights\<close>,
  \<^verbatim>\<open>serpApiResponse.properties\<close>, \<^verbatim>\<open>prop.property_token\<close> come first), so on a
  null argument it throws at its first access, and on an object it runs as defined
  above. Here \<open>None\<close> in a list, or for the payload, is \<^verbatim>\<open>null\<close>.
\<close>

record 'j any_flight_result =
  any_best_flights :: "raw_flight_option option list option"
  any_other_flights :: "raw_flight_option option list option"
  any_search_parameters :: "'j option"
  any_search_metadata :: "raw_metadata option"
  any_price_insights :: "'j option"

record 'j any_hotel_result =
  any_properties :: "raw_hotel_property option list option"
  any_hotel_search_parameters :: "'j option"

definition simplifyFlightOption_any :: "raw_flight_option option \<Rightarrow> js_error + simplified_flight" where
  "simplifyFlightOption_any element =
     (case element of None \<Rightarrow> Inl TypeError | Some opt \<Rightarrow> simplifyFlightOption opt)"

definition simplifyFlightResponse_any :: "'j any_flight_result option \<Rightarrow> js_error + 'j flight_response" where
  "simplifyFlightResponse_any payload =
     (case payload of
        None \<Rightarrow> Inl TypeError
      | Some serpApiResponse \<Rightarrow>
          bind_e (map_e simplifyFlightOption_any
                    (obj_or (any_best_flights serpApiResponse) [])) (\<lambda>best.
          bind_e (map_e simplifyFlightOption_any
                    (obj_or (any_other_flights serpApiResponse) [])) (\<lambda>other.
          let allPrices = map price (best @ other);
              pr = price_range_of allPrices
          in Inr \<lparr>summary =
                    \<lparr>searchParams = any_search_parameters serpApiResponse,
                     totalResults = length best + length other,
                     priceRange = pr,
                     googleFlightsUrl =
                       opt_chain (any_search_metadata serpApiResponse) google_flights_url\<rparr>,
                  bestFlights = best,
                  otherFlights = take 5 other,
                  priceInsights = any_price_insights serpApiResponse\<rparr>)))"

definition simplifyHotelProperty_any :: "int \<Rightarrow> raw_hotel_property option \<Rightarrow> js_error + simplified_hotel" where
  "simplifyHotelProperty_any now element =
     (case element of None \<Rightarrow> Inl TypeError | Some prop \<Rightarrow> Inr (simplifyHotelProperty now prop))"

definition simplifyHotelResponse_any :: "(nat \<Rightarrow> int) \<Rightarrow> 'j any_hotel_result option \<Rightarrow> js_error + 'j hotel_response" where
  "simplifyHotelResponse_any clock payload =
     (case payload of
        None \<Rightarrow> Inl TypeError
      | Some serpApiResponse \<Rightarrow>
          bind_e (map_e (\<lambda>(i, prop). simplifyHotelProperty_any (clock i) prop)
                    (enumerate 0 (obj_or (any_properties serpApiResponse) []))) (\<lambda>props.
          let allPrices = filter (\<lambda>p. p > 0) (map pricePerNight props);
              pr = price_range_of allPrices
          in Inr \<lparr>hotel_summary =
                    \<lparr>hotel_searchParams = any_hotel_search_parameters serpApiResponse,
                     hotel_totalResults = length props,
                     hotel_priceRange = pr\<rparr>,
                  hotel_properties = take 10 props\<rparr>))"

text \<open>A payload of objects only, seen as a payload that might have held nulls.\<close>

definition as_any_flights :: "'j raw_flight_result \<Rightarrow> 'j any_flight_result" where
  "as_any_flights r =
     \<lparr>any_best_flights = map_option (map Some) (best_flights r),
      any_other_flights = map_option (map Some) (other_flights r),
      any_search_parameters = search_parameters r,
      any_search_metadata = search_metadata r,
      any_price_insights = price_insights r\<rparr>"

definition as_any_hotels :: "'j raw_hotel_result \<Rightarrow> 'j any_hotel_result" where
  "as_any_hotels r =
     \<lparr>any_properties = map_option (map Some) (properties r),
      any_hotel_search_parameters = hotel_search_parameters r\<rparr>"

subsection \<open>The projections, in words\<close>

text \<open>
  What each field of a simplified record is to hold: the value of its source field, or
  the default when the field has no value. A text field has a value when it is present
  and not empty; a number field when it is present.
\<close>

definition text_or :: "string option \<Rightarrow> string \<Rightarrow> string" where
  "text_or field dflt = (case field of Some (c # cs) \<Rightarrow> c # cs | _ \<Rightarrow> dflt)"

definition number_or_zero :: "int option \<Rightarrow> int" where
  "number_or_zero field = (case field of None \<Rightarrow> 0 | Some n \<Rightarrow> n)"

definition final_leg :: "raw_flight_option \<Rightarrow> raw_leg option" where
  "final_leg opt =
     (case flights opt of None \<Rightarrow> None | Some ls \<Rightarrow> if ls = [] then None else Some (last ls))"

definition airport_fields :: "raw_airport option \<Rightarrow> endpoint" where
  "airport_fields a =
     (case a of
        None \<Rightarrow> \<lparr>airport = '''', code = '''', time = ''''\<rparr>
      | Some ap \<Rightarrow> \<lparr>airport = text_or (airport_name ap) '''',
                     code = text_or (airport_id ap) '''',
                     time = text_or (airport_time ap) ''''\<rparr>)"

text \<open>
  Airline and flight number of the first leg; departure of the first leg, arrival of the
  last leg; the formatted total duration; one stop less than there are legs, and none
  without legs; the price; the currency \<open>USD\<close>; the two tokens as they are; the first
  three highlight items.
\<close>

definition expected_flight :: "raw_flight_option \<Rightarrow> simplified_flight" where
  "expected_flight opt =
     \<lparr>airline = (case first_leg opt of None \<Rightarrow> ''Unknown''
                  | Some l \<Rightarrow> text_or (leg_airline l) ''Unknown''),
      flightNumber = (case first_leg opt of None \<Rightarrow> ''''
                       | Some l \<Rightarrow> text_or (flight_number l) ''''),
      departure = airport_fields (case first_leg opt of None \<Rightarrow> None
                                   | Some l \<Rightarrow> departure_airport l),
      arrival = airport_fields (case final_leg opt of None \<Rightarrow> None
                                 | Some l \<Rightarrow> arrival_airport l),
      duration = formatDuration (number_or_zero (total_duration opt)),
      stops = (case flights opt of None \<Rightarrow> 0
                | Some ls \<Rightarrow> if ls = [] then 0 else int (length ls) - 1),
      price = number_or_zero (option_price opt),
      currency = ''USD'',
      bookingToken = booking_token opt,
      departureToken = departure_token opt,
      highlights = take 3 (qualifying_highlights opt)\<rparr>"

text \<open>
  The token as identifier, or the generated one; name and type with their defaults;
  rating and review count as they are; the nightly and the total price; the currency
  \<open>USD\<close>; the neighbourhood, else the location, else nothing; the token, else
  nothing; the link; the first five amenities; the check-in and check-out times.
\<close>

definition nightly_price :: "raw_hotel_property \<Rightarrow> int" where
  "nightly_price prop =
     (case rate_per_night prop of None \<Rightarrow> 0 | Some r \<Rightarrow> number_or_zero (extracted_lowest r))"

definition expected_hotel :: "int \<Rightarrow> raw_hotel_property \<Rightarrow> simplified_hotel" where
  "expected_hotel now prop =
     \<lparr>hotelId = text_or (property_token prop) (generateHotelId now prop),
      hotel_name = text_or (prop_name prop) ''Unknown Property'',
      hotel_type = text_or (prop_type prop) ''hotel'',
      rating = overall_rating prop,
      reviewCount = reviews prop,
      pricePerNight = nightly_price prop,
      totalPrice = (case total_rate prop of None \<Rightarrow> 0
                     | Some r \<Rightarrow> number_or_zero (extracted_lowest r)),
      hotel_currency = ''USD'',
      hotel_location = text_or (neighborhood prop) (text_or (location prop) ''''),
      propertyToken = text_or (property_token prop) '''',
      bookingLink = link prop,
      hotel_amenities = (case amenities prop of None \<Rightarrow> None | Some as \<Rightarrow> Some (take 5 as)),
      checkIn = check_in_time prop,
      checkOut = check_out_time prop\<rparr>"

text \<open>The least and the greatest of a list of prices; nothing for the empty list.\<close>

definition expected_range :: "int list \<Rightarrow> price_range option" where
  "expected_range prices =
     (if prices = [] then None
      else Some \<lparr>range_min = Min (set prices), range_max = Max (set prices)\<rparr>)"

subsection \<open>Concrete payloads\<close>

text \<open>The raw flight option of the round-trip scenario.\<close>

definition roundtrip_leg :: raw_leg where
  "roundtrip_leg =
     \<lparr>departure_airport =
        Some \<lparr>airport_name = Some ''JFK Intl'', airport_id = Some ''JFK'',
              airport_time = Some ''11:00''\<rparr>,
      arrival_airport = None,
      leg_airline = Some ''Frontier'',
      flight_number = Some ''F9 2503'',
      legroom = Some ''28 in'',
      travel_class = Some ''Economy''\<rparr>"

definition roundtrip_option :: raw_flight_option where
  "roundtrip_option =
     \<lparr>flights = Some [roundtrip_leg],
      total_duration = Some 385,
      option_price = Some 926,
      option_type = Some ''Round trip'',
      booking_token = Some ''TOK1'',
      departure_token = None,
      carbon_emissions = None\<rparr>"

text \<open>The flight option \<^verbatim>\<open>{}\<close> and the flight option with an empty leg array.\<close>

definition bare_option :: raw_flight_option where
  "bare_option =
     \<lparr>flights = None, total_duration = None, option_price = None, option_type = None,
      booking_token = None, departure_token = None, carbon_emissions = None\<rparr>"

definition no_legs_option :: raw_flight_option where
  "no_legs_option = bare_option\<lparr>flights := Some []\<rparr>"

text \<open>
  A flight result whose best list holds the option \<^verbatim>\<open>{}\<close>, which has no price,
  and whose other list holds the round-trip option.
\<close>

definition unpriced_result :: "unit raw_flight_result" where
  "unpriced_result =
     \<lparr>best_flights = Some [bare_option], other_flights = Some [roundtrip_option],
      search_parameters = None, search_metadata = None, price_insights = None\<rparr>"

text \<open>The hotel property \<^verbatim>\<open>{}\<close>, a property with a name and no token, and a
  property with a token and a nightly rate.\<close>

definition bare_property :: raw_hotel_property where
  "bare_property =
     \<lparr>property_token = None, prop_name = None, prop_type = None, overall_rating = None,
      reviews = None, rate_per_night = None, total_rate = None, neighborhood = None,
      location = None, link = None, amenities = None, check_in_time = None,
      check_out_time = None\<rparr>"

definition tokenless_property :: raw_hotel_property where
  "tokenless_property = bare_property\<lparr>prop_name := Some ''Grand  Hotel''\<rparr>"

definition rated_property :: "int \<Rightarrow> raw_hotel_property" where
  "rated_property n =
     bare_property\<lparr>property_token := Some ''abc123xyz987'',
                    rate_per_night := Some \<lparr>extracted_lowest = Some n\<rparr>\<rparr>"

text \<open>A clock that reads \<open>t\<close> at every call.\<close>

definition const_clock :: "int \<Rightarrow> nat \<Rightarrow> int" where
  "const_clock t i = t"

text \<open>Hotel results built from these properties, and the flight result \<^verbatim>\<open>{}\<close>.\<close>

definition tokenless_result :: "unit raw_hotel_result" where
  "tokenless_result = \<lparr>properties = Some [tokenless_property], hotel_search_parameters = None\<rparr>"

definition rated_result :: "unit raw_hotel_result" where
  "rated_result =
     \<lparr>properties = Some [bare_property, rated_property 120, rated_property 80],
      hotel_search_parameters = None\<rparr>"

definition eleven_result :: "unit raw_hotel_result" where
  "eleven_result =
     \<lparr>properties = Some (replicate 10 bare_property @ [rated_property 80]),
      hotel_search_parameters = None\<rparr>"

definition mixed_result :: "unit raw_hotel_result" where
  "mixed_result =
     \<lparr>properties = Some [rated_property 120, tokenless_property],
      hotel_search_parameters = None\<rparr>"

definition bare_flight_result :: "'j raw_flight_result" where
  "bare_flight_result =
     \<lparr>best_flights = None, other_flights = None, search_parameters = None,
      search_metadata = None, price_insights = None\<rparr>"

text \<open>
  A flight result and a hotel result whose one list element is \<^verbatim>\<open>null\<close>; a flight
  result and a hotel result with objects only, most of their fields absent.
\<close>

definition null_element_flights :: "unit any_flight_result" where
  "null_element_flights =
     \<lparr>any_best_flights = Some [None], any_other_flights = None, any_search_parameters = None,
      any_search_metadata = None, any_price_insights = None\<rparr>"

definition null_element_hotels :: "unit any_hotel_result" where
  "null_element_hotels = \<lparr>any_properties = Some [None], any_hotel_search_parameters = None\<rparr>"

definition partial_flights :: "unit any_flight_result" where
  "partial_flights =
     \<lparr>any_best_flights = Some [Some bare_option], any_other_flights = Some [Some roundtrip_option],
      any_search_parameters = None, any_search_metadata = None, any_price_insights = None\<rparr>"

definition partial_hotels :: "unit any_hotel_result" where
  "partial_hotels =
     \<lparr>any_properties = Some [Some tokenless_property, Some (rated_property 120)],
      any_hotel_search_parameters = None\<rparr>"

section \<open>Properties\<close>

subsection \<open>The guarded accesses never throw\<close>

lemma bind_e_Inr: "bind_e (Inr v) f = f v"
  by (simp add: bind_e_def)

lemma first_leg_index: "opt_chain (flights opt) (\<lambda>fs. at_index fs 0) = first_leg opt"
  by (simp add: opt_chain_def at_index_def first_leg_def split: option.splits list.splits)

lemma co2_step:
  "(if lt_zero (opt_chain (carbon_emissions opt) difference_percent)
    then bind_e (get_member (carbon_emissions opt) difference_percent)
           (\<lambda>p. Inr [show_abs p @ ''% less CO2''])
    else Inr []) = Inr (co2_highlight opt)"
  by (simp add: lt_zero_def opt_chain_def get_member_def bind_e_def co2_highlight_def
        show_abs_def split: option.splits)

lemma legroom_step:
  "(if truthy_str (opt_chain (first_leg opt) legroom)
    then bind_e (get_member (first_leg opt) legroom)
           (\<lambda>l. Inr (h @ [''Legroom: '' @ show_str l]))
    else Inr h) = Inr (h @ legroom_highlight opt)"
  by (simp add: truthy_str_def opt_chain_def get_member_def bind_e_def legroom_highlight_def
        show_str_def split: option.splits)

lemma class_step:
  "(if truthy_str (opt_chain (first_leg opt) travel_class)
    then bind_e (get_member (first_leg opt) travel_class) (\<lambda>c. Inr (h @ [show_str c]))
    else Inr h) = Inr (h @ class_highlight opt)"
  by (simp add: truthy_str_def opt_chain_def get_member_def bind_e_def class_highlight_def
        show_str_def split: option.splits)

lemma type_step:
  "(if truthy_str (option_type opt) then h @ [show_str (option_type opt)] else h)
     = h @ type_highlight opt"
  by (simp add: truthy_str_def type_highlight_def show_str_def split: option.splits)

lemma buildFlightHighlights_Inr:
  "buildFlightHighlights opt = Inr (take 3 (qualifying_highlights opt))"
  unfolding buildFlightHighlights_def first_leg_index co2_step bind_e_Inr Let_def
    legroom_step class_step type_step qualifying_highlights_def
  by simp

lemma last_leg_Inr:
  "last_leg opt =
     Inr (case flights opt of None \<Rightarrow> None | Some fs \<Rightarrow> at_index fs (int (length fs) - 1))"
  by (simp add: last_leg_def get_member_def bind_e_def split: option.splits)

lemma simplifyFlightOption_Inr:
  "\<exists>f. simplifyFlightOption opt = Inr f
     \<and> price f = num_or (option_price opt) 0
     \<and> stops f = num_or (map_option (\<lambda>fs. int (length fs)) (flights opt)) 1 - 1
     \<and> highlights f = take 3 (qualifying_highlights opt)
     \<and> airline f = str_or (opt_chain (first_leg opt) leg_airline) ''Unknown''
     \<and> currency f = ''USD''"
  unfolding simplifyFlightOption_def last_leg_Inr buildFlightHighlights_Inr bind_e_Inr Let_def
    first_leg_index
  by (simp add: obj_or_def opt_chain_def empty_leg_def split: option.splits)

lemma map_e_Inr:
  "(\<And>x. x \<in> set xs \<Longrightarrow> \<exists>y. f x = Inr y)
     \<Longrightarrow> \<exists>ys. map_e f xs = Inr ys \<and> map Inr ys = map f xs"
proof (induction xs)
  case Nil
  then show ?case by simp
next
  case (Cons x xs)
  from Cons.prems obtain y where y: "f x = Inr y" by auto
  from Cons obtain ys where ys: "map_e f xs = Inr ys" "map Inr ys = map f xs" by auto
  show ?case using y ys by (simp add: bind_e_def)
qed

lemma map_e_flights:
  "\<exists>fs. map_e simplifyFlightOption xs = Inr fs \<and> map Inr fs = map simplifyFlightOption xs"
  using simplifyFlightOption_Inr by (intro map_e_Inr) blast

lemma map_Inr_length: "map Inr ys = map f xs \<Longrightarrow> length ys = length xs"
  by (metis length_map)

lemma map_Inr_field:
  assumes "map Inr ys = map f xs" and "\<And>x y. f x = Inr y \<Longrightarrow> g y = h x"
  shows "map g ys = map h xs"
  using assms
proof (induction xs arbitrary: ys)
  case Nil
  then show ?case by simp
next
  case (Cons x xs)
  then obtain y ys' where "ys = y # ys'" by (cases ys) auto
  with Cons show ?case by auto
qed

lemma flight_prices:
  "map Inr fs = map simplifyFlightOption xs
     \<Longrightarrow> map price fs = map (\<lambda>opt. num_or (option_price opt) 0) xs"
proof (rule map_Inr_field)
  fix x y assume "simplifyFlightOption x = Inr y"
  with simplifyFlightOption_Inr [of x] show "price y = num_or (option_price x) 0" by auto
qed

lemma flight_response_shape:
  "\<exists>best other.
      map Inr best = map simplifyFlightOption (obj_or (best_flights r) [])
    \<and> map Inr other = map simplifyFlightOption (obj_or (other_flights r) [])
    \<and> simplifyFlightResponse r =
        Inr \<lparr>summary =
               \<lparr>searchParams = search_parameters r,
                totalResults = length best + length other,
                priceRange = price_range_of (map price (best @ other)),
                googleFlightsUrl = opt_chain (search_metadata r) google_flights_url\<rparr>,
             bestFlights = best,
             otherFlights = take 5 other,
             priceInsights = price_insights r\<rparr>"
proof -
  obtain best where b: "map_e simplifyFlightOption (obj_or (best_flights r) []) = Inr best"
      "map Inr best = map simplifyFlightOption (obj_or (best_flights r) [])"
    using map_e_flights by blast
  obtain other where o: "map_e simplifyFlightOption (obj_or (other_flights r) []) = Inr other"
      "map Inr other = map simplifyFlightOption (obj_or (other_flights r) [])"
    using map_e_flights by blast
  have "simplifyFlightResponse r =
        Inr \<lparr>summary =
               \<lparr>searchParams = search_parameters r,
                totalResults = length best + length other,
                priceRange = price_range_of (map price (best @ other)),
                googleFlightsUrl = opt_chain (search_metadata r) google_flights_url\<rparr>,
             bestFlights = best,
             otherFlights = take 5 other,
             priceInsights = price_insights r\<rparr>"
    unfolding simplifyFlightResponse_def b(1) o(1) bind_e_Inr Let_def by (rule refl)
  with b(2) o(2) show ?thesis by blast
qed

lemma price_range_of_None: "price_range_of xs = None \<longleftrightarrow> xs = []"
  by (simp add: price_range_of_def split: list.splits)

lemma price_range_of_Min_Max:
  "xs \<noteq> [] \<Longrightarrow> price_range_of xs = Some \<lparr>range_min = Min (set xs), range_max = Max (set xs)\<rparr>"
  by (cases xs)
    (simp_all add: price_range_of_def Min.set_eq_fold [symmetric] Max.set_eq_fold [symmetric])

subsection \<open>The flight option projection\<close>

text \<open>
  Claim C1, as the scenario states it: the projection of the round-trip option has the
  arrival fields \<open>JFK Intl\<close>, \<open>JFK\<close>, \<open>11:00\<close>. The option's only leg has no
  \<^verbatim>\<open>arrival_airport\<close>, and the projection reads the arrival from
  \<^verbatim>\<open>lastFlight.arrival_airport\<close> alone, so the record the scenario gives is not
  the one returned.
\<close>

theorem C1_roundtrip_counterexample:
  "simplifyFlightOption roundtrip_option \<noteq>
     Inr \<lparr>airline = ''Frontier'', flightNumber = ''F9 2503'',
          departure = \<lparr>airport = ''JFK Intl'', code = ''JFK'', time = ''11:00''\<rparr>,
          arrival = \<lparr>airport = ''JFK Intl'', code = ''JFK'', time = ''11:00''\<rparr>,
          duration = ''6h 25m'', stops = 0, price = 926, currency = ''USD'',
          bookingToken = Some ''TOK1'', departureToken = None,
          highlights = [''Legroom: 28 in'', ''Economy'', ''Round trip'']\<rparr>"
  by code_simp

text \<open>
  Claim C1, amended: the projection of the round-trip option is the record of the
  scenario with the three arrival fields empty; the departure token is undefined.
\<close>

theorem C1_roundtrip_projection:
  "simplifyFlightOption roundtrip_option =
     Inr \<lparr>airline = ''Frontier'', flightNumber = ''F9 2503'',
          departure = \<lparr>airport = ''JFK Intl'', code = ''JFK'', time = ''11:00''\<rparr>,
          arrival = \<lparr>airport = '''', code = '''', time = ''''\<rparr>,
          duration = ''6h 25m'', stops = 0, price = 926, currency = ''USD'',
          bookingToken = Some ''TOK1'', departureToken = None,
          highlights = [''Legroom: 28 in'', ''Economy'', ''Round trip'']\<rparr>"
  by code_simp

text \<open>
  Claim C7: for every raw flight option the projection returns, and the highlights of
  the projected flight are the first three of the qualifying items in the order
  CO2 saving, legroom, travel class, trip type; there are never more than three.
\<close>

theorem C7_highlights_priority:
  "\<exists>f. simplifyFlightOption opt = Inr f
     \<and> highlights f = take 3 (qualifying_highlights opt)
     \<and> length (highlights f) \<le> 3"
  using simplifyFlightOption_Inr [of opt] by auto

text \<open>
  Claim C8: for a raw flight option whose leg array is absent or empty the projection
  throws nothing, the stop count is \<open>0\<close>, and the departure and the arrival have
  empty airport, code and time.
\<close>

theorem C8_no_legs:
  assumes "flights opt = None \<or> flights opt = Some []"
  shows "\<exists>f. simplifyFlightOption opt = Inr f \<and> stops f = 0
           \<and> departure f = \<lparr>airport = '''', code = '''', time = ''''\<rparr>
           \<and> arrival f = \<lparr>airport = '''', code = '''', time = ''''\<rparr>"
  using assms
  unfolding simplifyFlightOption_def last_leg_Inr buildFlightHighlights_Inr bind_e_Inr Let_def
  by (auto simp: obj_or_def opt_chain_def empty_leg_def at_index_def str_or_def num_or_def)

text \<open>Claim C8 at the option with an empty leg array.\<close>

theorem C8_no_legs_witness:
  "(flights no_legs_option = None \<or> flights no_legs_option = Some [])
   \<and> (\<exists>f. simplifyFlightOption no_legs_option = Inr f \<and> stops f = 0
           \<and> departure f = \<lparr>airport = '''', code = '''', time = ''''\<rparr>
           \<and> arrival f = \<lparr>airport = '''', code = '''', time = ''''\<rparr>)"
proof -
  have h: "flights no_legs_option = None \<or> flights no_legs_option = Some []"
    by (simp add: no_legs_option_def bare_option_def)
  show ?thesis using h C8_no_legs [OF h] by simp
qed

subsection \<open>The flight response\<close>

text \<open>
  Claim C2: for a raw flight result with \<open>N\<close> best and \<open>M\<close> other options (an absent
  list counts as empty) the transform returns; \<open>totalResults\<close> is \<open>N + M\<close>;
  \<open>bestFlights\<close> holds the projections of all \<open>N\<close> best options in order;
  \<open>otherFlights\<close> holds the projections of the first \<open>min M 5\<close> other options in order.
\<close>

theorem C2_flight_response_counts:
  "\<exists>resp. simplifyFlightResponse r = Inr resp
     \<and> totalResults (summary resp)
         = length (obj_or (best_flights r) []) + length (obj_or (other_flights r) [])
     \<and> map Inr (bestFlights resp) = map simplifyFlightOption (obj_or (best_flights r) [])
     \<and> length (bestFlights resp) = length (obj_or (best_flights r) [])
     \<and> map Inr (otherFlights resp)
         = take 5 (map simplifyFlightOption (obj_or (other_flights r) []))
     \<and> length (otherFlights resp) = min (length (obj_or (other_flights r) [])) 5"
proof -
  obtain best other where
    b: "map Inr best = map simplifyFlightOption (obj_or (best_flights r) [])" and
    o: "map Inr other = map simplifyFlightOption (obj_or (other_flights r) [])" and
    e: "simplifyFlightResponse r =
        Inr \<lparr>summary =
               \<lparr>searchParams = search_parameters r,
                totalResults = length best + length other,
                priceRange = price_range_of (map price (best @ other)),
                googleFlightsUrl = opt_chain (search_metadata r) google_flights_url\<rparr>,
             bestFlights = best,
             otherFlights = take 5 other,
             priceInsights = price_insights r\<rparr>"
    using flight_response_shape [of r] by blast
  have lb: "length best = length (obj_or (best_flights r) [])"
    using b by (rule map_Inr_length)
  have lo: "length other = length (obj_or (other_flights r) [])"
    using o by (rule map_Inr_length)
  have t: "map Inr (take 5 other)
      = take 5 (map simplifyFlightOption (obj_or (other_flights r) []))"
    using arg_cong [OF o, of "take 5"] by (simp add: take_map)
  show ?thesis
    unfolding e using b lb lo t by simp
qed

text \<open>
  Claim C10: when some option of the combined best and other lists has no price and no
  option has a negative price, the price range of the flight summary is present and its
  minimum is \<open>0\<close>.
\<close>

theorem C10_missing_price_min_zero:
  assumes missing: "\<exists>opt \<in> set (obj_or (best_flights r) [] @ obj_or (other_flights r) []).
                      option_price opt = None"
    and nonneg: "\<forall>opt \<in> set (obj_or (best_flights r) [] @ obj_or (other_flights r) []).
                   \<forall>p. option_price opt = Some p \<longrightarrow> 0 \<le> p"
  shows "\<exists>resp pr. simplifyFlightResponse r = Inr resp
           \<and> priceRange (summary resp) = Some pr \<and> range_min pr = 0"
proof -
  let ?all = "obj_or (best_flights r) [] @ obj_or (other_flights r) []"
  let ?p = "\<lambda>opt. num_or (option_price opt) 0"
  obtain best other where
    b: "map Inr best = map simplifyFlightOption (obj_or (best_flights r) [])" and
    o: "map Inr other = map simplifyFlightOption (obj_or (other_flights r) [])" and
    e: "simplifyFlightResponse r =
        Inr \<lparr>summary =
               \<lparr>searchParams = search_parameters r,
                totalResults = length best + length other,
                priceRange = price_range_of (map price (best @ other)),
                googleFlightsUrl = opt_chain (search_metadata r) google_flights_url\<rparr>,
             bestFlights = best,
             otherFlights = take 5 other,
             priceInsights = price_insights r\<rparr>"
    using flight_response_shape [of r] by blast
  have prices: "map price (best @ other) = map ?p ?all"
    using flight_prices [OF b] flight_prices [OF o] by simp
  from missing obtain opt where opt: "opt \<in> set ?all" "option_price opt = None" by blast
  then have ne: "map ?p ?all \<noteq> []" by auto
  have zero: "0 \<in> set (map ?p ?all)"
  proof -
    have "?p opt = 0" using opt(2) by (simp add: num_or_def)
    moreover have "?p opt \<in> ?p ` set ?all" using opt(1) by (rule imageI)
    ultimately show ?thesis by (simp only: set_map)
  qed
  have lower: "\<And>x. x \<in> set (map ?p ?all) \<Longrightarrow> 0 \<le> x"
  proof -
    fix x assume "x \<in> set (map ?p ?all)"
    then obtain q where q: "q \<in> set ?all" "x = ?p q" by auto
    show "0 \<le> x"
    proof (cases "option_price q")
      case None
      then show ?thesis using q(2) by (simp add: num_or_def)
    next
      case (Some v)
      with nonneg q(1) have "0 \<le> v" by blast
      then show ?thesis using q(2) Some by (simp add: num_or_def)
    qed
  qed
  have "Min (set (map ?p ?all)) = 0"
    by (rule Min_eqI) (use zero lower in auto)
  then have "price_range_of (map price (best @ other))
      = Some \<lparr>range_min = 0, range_max = Max (set (map ?p ?all))\<rparr>"
    unfolding prices using price_range_of_Min_Max [OF ne] by simp
  then show ?thesis unfolding e by simp
qed

text \<open>Claim C10 at a result with one unpriced option and one option priced 926.\<close>

theorem C10_missing_price_witness:
  "\<exists>resp pr. simplifyFlightResponse unpriced_result = Inr resp
      \<and> priceRange (summary resp) = Some pr \<and> range_min pr = 0"
proof -
  have m: "\<exists>opt \<in> set (obj_or (best_flights unpriced_result) []
                        @ obj_or (other_flights unpriced_result) []).
             option_price opt = None"
    by (simp add: unpriced_result_def obj_or_def bare_option_def)
  have n: "\<forall>opt \<in> set (obj_or (best_flights unpriced_result) []
                        @ obj_or (other_flights unpriced_result) []).
             \<forall>p. option_price opt = Some p \<longrightarrow> 0 \<le> p"
    by (simp add: unpriced_result_def obj_or_def bare_option_def roundtrip_option_def)
  show ?thesis using C10_missing_price_min_zero [OF m n] .
qed

subsection \<open>The hotel property projection and the hotel response\<close>

lemma projected_properties_upt:
  "projected_properties clock r =
     map (\<lambda>i. simplifyHotelProperty (clock i) (obj_or (properties r) [] ! i))
       [0..<length (obj_or (properties r) [])]"
  unfolding projected_properties_def enumerate_eq_zip
  by (rule nth_equalityI) simp_all

lemma length_projected_properties:
  "length (projected_properties clock r) = length (obj_or (properties r) [])"
  by (simp add: projected_properties_def)

lemma pricePerNight_projection:
  "pricePerNight (simplifyHotelProperty now prop)
     = num_or (opt_chain (rate_per_night prop) extracted_lowest) 0"
  by (simp add: simplifyHotelProperty_def)

lemma projected_prices:
  "map pricePerNight (projected_properties clock r)
     = map (\<lambda>prop. num_or (opt_chain (rate_per_night prop) extracted_lowest) 0)
         (obj_or (properties r) [])"
  unfolding projected_properties_upt
  by (rule nth_equalityI) (simp_all add: pricePerNight_projection)

lemma hotel_response_shape:
  "simplifyHotelResponse clock r =
      \<lparr>hotel_summary =
         \<lparr>hotel_searchParams = hotel_search_parameters r,
          hotel_totalResults = length (projected_properties clock r),
          hotel_priceRange = price_range_of
            (filter (\<lambda>p. 0 < p) (map pricePerNight (projected_properties clock r)))\<rparr>,
       hotel_properties = take 10 (projected_properties clock r)\<rparr>"
  by (simp add: simplifyHotelResponse_def Let_def)

lemma positive_prices_set:
  "set (filter (\<lambda>p. 0 < p) (map pricePerNight hs))
     = {pricePerNight h | h. h \<in> set hs \<and> 0 < pricePerNight h}"
  by auto

lemma projection_clock_free:
  "\<not> (property_token prop = None \<or> property_token prop = Some [])
     \<Longrightarrow> simplifyHotelProperty now prop = simplifyHotelProperty now' prop"
  by (auto simp: simplifyHotelProperty_def str_or_def split: option.splits)

text \<open>
  Claim C3: for a raw hotel result with \<open>P\<close> properties (an absent list counts as empty)
  \<open>totalResults\<close> is \<open>P\<close>; the emitted properties are the first \<open>min P 10\<close>
  projections in order, the property at index \<open>i\<close> projected with the clock reading
  \<open>clock i\<close>; the price range is computed from the nightly prices of all \<open>P\<close> raw
  properties, those from index 10 on among them.
\<close>

theorem C3_hotel_response_counts:
  "hotel_totalResults (hotel_summary (simplifyHotelResponse clock r))
       = length (obj_or (properties r) [])
   \<and> hotel_properties (simplifyHotelResponse clock r)
       = take 10 (map (\<lambda>i. simplifyHotelProperty (clock i) (obj_or (properties r) [] ! i))
                   [0..<length (obj_or (properties r) [])])
   \<and> length (hotel_properties (simplifyHotelResponse clock r))
       = min (length (obj_or (properties r) [])) 10
   \<and> hotel_priceRange (hotel_summary (simplifyHotelResponse clock r))
       = price_range_of
           (filter (\<lambda>p. 0 < p)
              (map (\<lambda>prop. num_or (opt_chain (rate_per_night prop) extracted_lowest) 0)
                 (obj_or (properties r) [])))"
proof -
  have s: "simplifyHotelResponse clock r =
      \<lparr>hotel_summary =
         \<lparr>hotel_searchParams = hotel_search_parameters r,
          hotel_totalResults = length (projected_properties clock r),
          hotel_priceRange = price_range_of
            (filter (\<lambda>p. 0 < p) (map pricePerNight (projected_properties clock r)))\<rparr>,
       hotel_properties = take 10 (projected_properties clock r)\<rparr>"
    by (simp add: simplifyHotelResponse_def Let_def)
  show ?thesis
    unfolding s projected_prices
    by (simp add: length_projected_properties projected_properties_upt [symmetric])
qed

text \<open>
  Claim C3 at eleven properties of which only the last has a nightly price: the count is
  11, ten properties are emitted, and the price range is that of the eleventh.
\<close>

theorem C3_hotel_response_witness:
  "hotel_totalResults (hotel_summary (simplifyHotelResponse (const_clock 1) eleven_result)) = 11
   \<and> length (hotel_properties (simplifyHotelResponse (const_clock 1) eleven_result)) = 10
   \<and> hotel_priceRange (hotel_summary (simplifyHotelResponse (const_clock 1) eleven_result))
       = Some \<lparr>range_min = 80, range_max = 80\<rparr>"
proof -
  have l: "length (obj_or (properties eleven_result) []) = 11"
    by (simp add: eleven_result_def obj_or_def)
  have p: "price_range_of
           (filter (\<lambda>p. 0 < p)
              (map (\<lambda>prop. num_or (opt_chain (rate_per_night prop) extracted_lowest) 0)
                 (obj_or (properties eleven_result) [])))
       = Some \<lparr>range_min = 80, range_max = 80\<rparr>"
    by code_simp
  show ?thesis using C3_hotel_response_counts [of "const_clock 1" eleven_result] unfolding l p by simp
qed

text \<open>
  Claim C4, as stated: the result of \<^verbatim>\<open>simplifyHotelResponse\<close> depends on its
  argument alone. For a property without a token the identifier embeds
  \<^verbatim>\<open>Date.now()\<close>, so two calls on the same payload at different times differ.
\<close>

theorem C4_purity_counterexample:
  "simplifyHotelResponse (const_clock 1) tokenless_result
     \<noteq> simplifyHotelResponse (const_clock 2) tokenless_result"
  by code_simp

text \<open>
  Claim C4, amended: \<^verbatim>\<open>simplifyFlightResponse\<close> is a function of its argument
  alone (its model takes no other argument, since the source reads nothing else);
  \<^verbatim>\<open>simplifyHotelResponse\<close> is a function of its argument and of the clock
  readings taken while projecting the properties whose token is absent or empty. Two
  calls on the same payload agree when those readings agree, in particular when every
  property has a non-empty token.
\<close>

theorem C4_clock_dependence:
  assumes "\<forall>i < length (obj_or (properties hr) []).
             (property_token (obj_or (properties hr) [] ! i) = None
              \<or> property_token (obj_or (properties hr) [] ! i) = Some [])
             \<longrightarrow> clock i = clock' i"
  shows "simplifyHotelResponse clock hr = simplifyHotelResponse clock' hr
       \<and> (fr' = fr \<longrightarrow> simplifyFlightResponse fr' = simplifyFlightResponse fr)"
proof -
  have "projected_properties clock hr = projected_properties clock' hr"
    unfolding projected_properties_upt
  proof (rule map_cong [OF refl])
    fix i assume "i \<in> set [0..<length (obj_or (properties hr) [])]"
    then have i: "i < length (obj_or (properties hr) [])" by simp
    show "simplifyHotelProperty (clock i) (obj_or (properties hr) [] ! i)
        = simplifyHotelProperty (clock' i) (obj_or (properties hr) [] ! i)"
    proof (cases "property_token (obj_or (properties hr) [] ! i) = None
              \<or> property_token (obj_or (properties hr) [] ! i) = Some []")
      case True
      with assms i have "clock i = clock' i" by blast
      then show ?thesis by simp
    next
      case False
      then show ?thesis by (rule projection_clock_free)
    qed
  qed
  then have "simplifyHotelResponse clock hr = simplifyHotelResponse clock' hr"
    by (simp only: simplifyHotelResponse_def)
  then show ?thesis by simp
qed

text \<open>
  Claim C4, amended, at a result whose first property has a token and whose second has
  none, under two clocks that differ at the first property only.
\<close>

theorem C4_clock_dependence_witness:
  "simplifyHotelResponse (const_clock 1) mixed_result
     = simplifyHotelResponse ((const_clock 1)(0 := 5)) mixed_result
   \<and> const_clock 1 0 \<noteq> ((const_clock 1)(0 := 5)) 0"
proof -
  have h: "\<forall>i < length (obj_or (properties mixed_result) []).
             (property_token (obj_or (properties mixed_result) [] ! i) = None
              \<or> property_token (obj_or (properties mixed_result) [] ! i) = Some [])
             \<longrightarrow> const_clock 1 i = ((const_clock 1)(0 := 5)) i"
    by (simp add: mixed_result_def obj_or_def rated_property_def bare_property_def)
  have d: "const_clock 1 0 \<noteq> ((const_clock 1)(0 := 5)) 0"
    by (simp add: const_clock_def)
  from C4_clock_dependence [OF h]
  have "simplifyHotelResponse (const_clock 1) mixed_result
     = simplifyHotelResponse ((const_clock 1)(0 := 5)) mixed_result"
    by (rule conjunct1)
  then show ?thesis using d by (rule conjI)
qed

text \<open>
  Claim C5: for a raw hotel property whose token is absent or empty, \<open>hotelId\<close> is the
  synthesized identifier: \<open>HTL-\<close>, then the first 20 characters of the name with its
  runs of white space replaced by hyphens (\<open>undefined\<close> when there is no name), a
  hyphen and the clock reading; it is not empty; \<open>propertyToken\<close> is the empty
  string.
\<close>

theorem C5_tokenless_identifier:
  assumes "property_token prop = None \<or> property_token prop = Some []"
  shows "hotelId (simplifyHotelProperty now prop)
           = ''HTL-'' @ (case prop_name prop of None \<Rightarrow> ''undefined''
                          | Some n \<Rightarrow> take 20 (replace_ws n)) @ ''-'' @ show_int now
       \<and> hotelId (simplifyHotelProperty now prop) = generateHotelId now prop
       \<and> hotelId (simplifyHotelProperty now prop) \<noteq> []
       \<and> propertyToken (simplifyHotelProperty now prop) = []"
  using assms
  by (auto simp: simplifyHotelProperty_def generateHotelId_def str_or_def
        show_str_def split: option.splits)

text \<open>Claim C5 at a property named \<open>Grand  Hotel\<close> without a token.\<close>

theorem C5_tokenless_identifier_witness:
  "hotelId (simplifyHotelProperty 1700000000000 tokenless_property)
       = ''HTL-Grand-Hotel-1700000000000''
   \<and> propertyToken (simplifyHotelProperty 1700000000000 tokenless_property) = []"
proof -
  have h: "property_token tokenless_property = None
         \<or> property_token tokenless_property = Some []"
    by (simp add: tokenless_property_def bare_property_def)
  have n: "(case prop_name tokenless_property of None \<Rightarrow> ''undefined''
            | Some n \<Rightarrow> take 20 (replace_ws n)) = ''Grand-Hotel''"
    by code_simp
  have t: "show_int 1700000000000 = ''1700000000000''"
    by code_simp
  show ?thesis using C5_tokenless_identifier [OF h, of 1700000000000] unfolding n t by simp
qed

subsection \<open>The price range\<close>

text \<open>
  Claim C6: the price range of the flight summary is absent exactly when the best and the
  other list are both empty; the price range of the hotel summary is absent exactly when
  no projected property has a nightly price above \<open>0\<close>, and when present its minimum
  and maximum are those of the nightly prices above \<open>0\<close>.
\<close>

theorem C6_price_range_presence:
  "(\<exists>resp. simplifyFlightResponse fr = Inr resp
      \<and> (priceRange (summary resp) = None)
          = (obj_or (best_flights fr) [] @ obj_or (other_flights fr) [] = []))
   \<and> (hotel_priceRange (hotel_summary (simplifyHotelResponse clock hr)) = None)
       = (\<forall>h \<in> set (projected_properties clock hr). \<not> 0 < pricePerNight h)
   \<and> (\<forall>pr. hotel_priceRange (hotel_summary (simplifyHotelResponse clock hr)) = Some pr
         \<longrightarrow> range_min pr
               = Min {pricePerNight h | h. h \<in> set (projected_properties clock hr)
                                          \<and> 0 < pricePerNight h}
           \<and> range_max pr
               = Max {pricePerNight h | h. h \<in> set (projected_properties clock hr)
                                          \<and> 0 < pricePerNight h})"
proof -
  obtain best other where
    b: "map Inr best = map simplifyFlightOption (obj_or (best_flights fr) [])" and
    o: "map Inr other = map simplifyFlightOption (obj_or (other_flights fr) [])" and
    e: "simplifyFlightResponse fr =
        Inr \<lparr>summary =
               \<lparr>searchParams = search_parameters fr,
                totalResults = length best + length other,
                priceRange = price_range_of (map price (best @ other)),
                googleFlightsUrl = opt_chain (search_metadata fr) google_flights_url\<rparr>,
             bestFlights = best,
             otherFlights = take 5 other,
             priceInsights = price_insights fr\<rparr>"
    using flight_response_shape [of fr] by blast
  have lb: "length best = length (obj_or (best_flights fr) [])"
    using b by (rule map_Inr_length)
  have lo: "length other = length (obj_or (other_flights fr) [])"
    using o by (rule map_Inr_length)
  have nb: "(best = []) = (obj_or (best_flights fr) [] = [])"
    using lb by (cases best) auto
  have no: "(other = []) = (obj_or (other_flights fr) [] = [])"
    using lo by (cases other) auto
  have flights: "\<exists>resp. simplifyFlightResponse fr = Inr resp
      \<and> (priceRange (summary resp) = None)
          = (obj_or (best_flights fr) [] @ obj_or (other_flights fr) [] = [])"
    unfolding e using nb no by (simp add: price_range_of_None)
  let ?pos = "filter (\<lambda>p. 0 < p) (map pricePerNight (projected_properties clock hr))"
  have pr: "hotel_priceRange (hotel_summary (simplifyHotelResponse clock hr))
      = price_range_of ?pos"
    by (simp add: hotel_response_shape)
  have none: "(hotel_priceRange (hotel_summary (simplifyHotelResponse clock hr)) = None)
       = (\<forall>h \<in> set (projected_properties clock hr). \<not> 0 < pricePerNight h)"
    unfolding pr price_range_of_None by (simp add: filter_empty_conv)
  have some: "\<forall>pr. hotel_priceRange (hotel_summary (simplifyHotelResponse clock hr)) = Some pr
         \<longrightarrow> range_min pr
               = Min {pricePerNight h | h. h \<in> set (projected_properties clock hr)
                                          \<and> 0 < pricePerNight h}
           \<and> range_max pr
               = Max {pricePerNight h | h. h \<in> set (projected_properties clock hr)
                                          \<and> 0 < pricePerNight h}"
  proof (intro allI impI)
    fix q assume q: "hotel_priceRange (hotel_summary (simplifyHotelResponse clock hr)) = Some q"
    then have ne: "?pos \<noteq> []" unfolding pr by (auto simp: price_range_of_None [symmetric])
    from price_range_of_Min_Max [OF ne] q
    have "q = \<lparr>range_min = Min (set ?pos), range_max = Max (set ?pos)\<rparr>"
      unfolding pr by simp
    then show "range_min q
               = Min {pricePerNight h | h. h \<in> set (projected_properties clock hr)
                                          \<and> 0 < pricePerNight h}
           \<and> range_max q
               = Max {pricePerNight h | h. h \<in> set (projected_properties clock hr)
                                          \<and> 0 < pricePerNight h}"
      unfolding positive_prices_set by simp
  qed
  from flights none some show ?thesis by blast
qed

text \<open>
  Claim C6 at the empty flight result and at a hotel result with the nightly prices
  absent, 120 and 80.
\<close>

theorem C6_price_range_witness:
  "(\<exists>resp. simplifyFlightResponse (bare_flight_result :: unit raw_flight_result) = Inr resp
       \<and> priceRange (summary resp) = None)
   \<and> hotel_priceRange (hotel_summary (simplifyHotelResponse (const_clock 1) rated_result))
       = Some \<lparr>range_min = 80, range_max = 120\<rparr>
   \<and> Min {pricePerNight h | h. h \<in> set (projected_properties (const_clock 1) rated_result)
                              \<and> 0 < pricePerNight h} = 80
   \<and> Max {pricePerNight h | h. h \<in> set (projected_properties (const_clock 1) rated_result)
                              \<and> 0 < pricePerNight h} = 120"
proof -
  have e: "obj_or (best_flights (bare_flight_result :: unit raw_flight_result)) []
         @ obj_or (other_flights (bare_flight_result :: unit raw_flight_result)) [] = []"
    by (simp add: bare_flight_result_def obj_or_def)
  have h: "hotel_priceRange (hotel_summary (simplifyHotelResponse (const_clock 1) rated_result))
       = Some \<lparr>range_min = 80, range_max = 120\<rparr>"
    by code_simp
  show ?thesis
    using C6_price_range_presence [of "bare_flight_result :: unit raw_flight_result" "const_clock 1" rated_result] e h
    by auto
qed

subsection \<open>Totality and the defaults\<close>

lemma str_or_text_or: "str_or a d = text_or a d"
  by (cases a) (simp_all add: str_or_def text_or_def split: list.splits)

lemma num_or_zero: "num_or a 0 = number_or_zero a"
  by (cases a) (simp_all add: num_or_def number_or_zero_def)

lemma last_index_final_leg:
  "(case flights opt of None \<Rightarrow> None | Some fs \<Rightarrow> at_index fs (int (length fs) - 1))
     = final_leg opt"
proof (cases "flights opt")
  case None
  then show ?thesis by (simp add: final_leg_def)
next
  case (Some fs)
  show ?thesis
  proof (cases "fs = []")
    case True
    with Some show ?thesis by (simp add: final_leg_def at_index_def)
  next
    case False
    then have "nat (int (length fs) - 1) = length fs - 1" by simp
    with False Some show ?thesis
      by (simp add: final_leg_def at_index_def last_conv_nth)
  qed
qed

lemma endpoint_fields:
  "\<lparr>airport = str_or (opt_chain a airport_name) '''',
    code = str_or (opt_chain a airport_id) '''',
    time = str_or (opt_chain a airport_time) ''''\<rparr> = airport_fields a"
  by (cases a) (simp_all add: airport_fields_def opt_chain_def str_or_text_or text_or_def)

lemma first_leg_field:
  "str_or (f (obj_or (first_leg opt) empty_leg)) d
     = (case first_leg opt of None \<Rightarrow> str_or (f empty_leg) d | Some l \<Rightarrow> text_or (f l) d)"
  by (cases "first_leg opt") (simp_all add: obj_or_def str_or_text_or)

lemma first_leg_departure:
  "departure_airport (obj_or (first_leg opt) empty_leg)
     = (case first_leg opt of None \<Rightarrow> None | Some l \<Rightarrow> departure_airport l)"
  by (cases "first_leg opt") (simp_all add: obj_or_def empty_leg_def)

lemma final_leg_arrival:
  "arrival_airport (obj_or (final_leg opt) (obj_or (first_leg opt) empty_leg))
     = (case final_leg opt of None \<Rightarrow> None | Some l \<Rightarrow> arrival_airport l)"
proof (cases "final_leg opt")
  case None
  then have "first_leg opt = None"
    by (auto simp: final_leg_def first_leg_def split: option.splits list.splits if_splits)
  with None show ?thesis by (simp add: obj_or_def empty_leg_def)
next
  case (Some l)
  then show ?thesis by (simp add: obj_or_def)
qed

lemma stops_in_words:
  "num_or (map_option (\<lambda>fs. int (length fs)) (flights opt)) 1 - 1
      = (case flights opt of None \<Rightarrow> 0 | Some ls \<Rightarrow> if ls = [] then 0 else int (length ls) - 1)"
  by (cases "flights opt") (simp_all add: num_or_def)

lemma simplifyFlightOption_expected: "simplifyFlightOption opt = Inr (expected_flight opt)"
proof -
  have a: "str_or (leg_airline empty_leg) ''Unknown'' = ''Unknown''"
    by (simp add: empty_leg_def str_or_def)
  have n: "str_or (flight_number empty_leg) '''' = ''''"
    by (simp add: empty_leg_def str_or_def)
  show ?thesis
    unfolding simplifyFlightOption_def last_leg_Inr buildFlightHighlights_Inr bind_e_Inr Let_def
      first_leg_index last_index_final_leg endpoint_fields stops_in_words num_or_zero
      first_leg_field first_leg_departure final_leg_arrival a n expected_flight_def
    by (rule refl)
qed

lemma simplifyHotelProperty_expected: "simplifyHotelProperty now prop = expected_hotel now prop"
proof -
  have n: "num_or (opt_chain (rate_per_night prop) extracted_lowest) 0 = nightly_price prop"
    by (cases "rate_per_night prop")
      (simp_all add: nightly_price_def opt_chain_def num_or_zero number_or_zero_def)
  have t: "num_or (opt_chain (total_rate prop) extracted_lowest) 0
      = (case total_rate prop of None \<Rightarrow> 0 | Some r \<Rightarrow> number_or_zero (extracted_lowest r))"
    by (cases "total_rate prop") (simp_all add: opt_chain_def num_or_zero number_or_zero_def)
  have m: "map_option (take 5) (amenities prop)
      = (case amenities prop of None \<Rightarrow> None | Some as \<Rightarrow> Some (take 5 as))"
    by (cases "amenities prop") simp_all
  show ?thesis
    unfolding simplifyHotelProperty_def expected_hotel_def n t m str_or_text_or
    by (rule refl)
qed

lemma price_range_of_expected: "price_range_of xs = expected_range xs"
  by (cases xs)
    (simp_all add: price_range_of_def expected_range_def Min.set_eq_fold [symmetric]
       Max.set_eq_fold [symmetric])

lemma map_e_flight_objects:
  "map_e simplifyFlightOption_any (map Some bs) = Inr (map expected_flight bs)"
  by (induction bs)
    (simp_all add: simplifyFlightOption_any_def simplifyFlightOption_expected bind_e_Inr)

lemma map_e_hotel_objects:
  "map_e (\<lambda>(i, prop). simplifyHotelProperty_any (clock i) prop) (enumerate n (map Some ps))
     = Inr (map (\<lambda>(i, prop). expected_hotel (clock i) prop) (enumerate n ps))"
  by (induction ps arbitrary: n)
    (simp_all add: simplifyHotelProperty_any_def simplifyHotelProperty_expected bind_e_Inr)

lemma enumerate_upt:
  "map (\<lambda>(i, prop). g i prop) (enumerate 0 ps) = map (\<lambda>i. g i (ps ! i)) [0..<length ps]"
  unfolding enumerate_eq_zip by (rule nth_equalityI) simp_all

lemma expected_flight_prices:
  "map price (map expected_flight bs @ map expected_flight os)
     = map (\<lambda>opt. number_or_zero (option_price opt)) (bs @ os)"
  by (simp add: expected_flight_def)

lemma expected_hotel_prices:
  "map pricePerNight (map (\<lambda>i. expected_hotel (clock i) (ps ! i)) [0..<length ps])
     = map nightly_price ps"
  by (rule nth_equalityI) (simp_all add: expected_hotel_def)

lemma map_e_expected:
  "map_e simplifyFlightOption xs = Inr (map expected_flight xs)"
  by (induction xs) (simp_all add: simplifyFlightOption_expected bind_e_Inr)

lemma obj_or_objects: "obj_or (map_option (map Some) xs) [] = map Some (obj_or xs [])"
  by (cases xs) (simp_all add: obj_or_def)

lemma any_flights_agree:
  "simplifyFlightResponse_any (Some (as_any_flights r)) = simplifyFlightResponse r"
  unfolding simplifyFlightResponse_any_def simplifyFlightResponse_def option.case
  by (simp add: as_any_flights_def obj_or_objects map_e_flight_objects map_e_expected)

lemma any_hotels_agree:
  "simplifyHotelResponse_any clock (Some (as_any_hotels r)) = Inr (simplifyHotelResponse clock r)"
proof -
  have "projected_properties clock r
      = map (\<lambda>(i, prop). expected_hotel (clock i) prop) (enumerate 0 (obj_or (properties r) []))"
    by (simp add: projected_properties_def simplifyHotelProperty_expected)
  then show ?thesis
    unfolding simplifyHotelResponse_any_def simplifyHotelResponse_def option.case
    by (simp add: as_any_hotels_def obj_or_objects map_e_hotel_objects bind_e_Inr)
qed

text \<open>
  Claim C9, as stated: on arbitrary raw payloads the transforms never raise an error.
  A \<^verbatim>\<open>null\<close> element of \<^verbatim>\<open>best_flights\<close> reaches
  \<^verbatim>\<open>option.flights\<close> and a \<^verbatim>\<open>null\<close> element of \<^verbatim>\<open>properties\<close> reaches
  \<^verbatim>\<open>prop.property_token\<close>: both are plain member accesses, and both transforms
  throw a TypeError.
\<close>

theorem C9_null_element_counterexample:
  "simplifyFlightResponse_any (Some null_element_flights) = Inl TypeError
   \<and> simplifyHotelResponse_any (const_clock 1) (Some null_element_hotels) = Inl TypeError"
  by code_simp

text \<open>
  Claim C9, amended: on a payload that is an object and whose list elements are objects
  (\<open>bs\<close>, \<open>os\<close> and \<open>ps\<close>), whichever of their optional fields are absent, both
  transforms return, and every field of the response holds the value of its source field
  or the stated default. The flight response echoes the search parameters, the display
  address and the price insights, counts all options, gives the range of all prices
  (an absent price counting as \<open>0\<close>), and holds the projection in words of every best
  option and of the first five other options. The hotel response echoes the search
  parameters, counts all properties, gives the range of the nightly prices above \<open>0\<close>,
  and holds the projection in words of the first ten properties.
\<close>

theorem C9_total_on_well_formed_payloads:
  assumes b: "obj_or (any_best_flights p) [] = map Some bs"
    and o: "obj_or (any_other_flights p) [] = map Some os"
    and h: "obj_or (any_properties q) [] = map Some ps"
  shows "simplifyFlightResponse_any (Some p) =
           Inr \<lparr>summary =
                  \<lparr>searchParams = any_search_parameters p,
                   totalResults = length bs + length os,
                   priceRange =
                     expected_range (map (\<lambda>opt. number_or_zero (option_price opt)) (bs @ os)),
                   googleFlightsUrl =
                     (case any_search_metadata p of None \<Rightarrow> None
                      | Some m \<Rightarrow> google_flights_url m)\<rparr>,
                bestFlights = map expected_flight bs,
                otherFlights = take 5 (map expected_flight os),
                priceInsights = any_price_insights p\<rparr>
       \<and> simplifyHotelResponse_any clock (Some q) =
           Inr \<lparr>hotel_summary =
                  \<lparr>hotel_searchParams = any_hotel_search_parameters q,
                   hotel_totalResults = length ps,
                   hotel_priceRange =
                     expected_range (filter (\<lambda>n. 0 < n) (map nightly_price ps))\<rparr>,
                hotel_properties =
                  take 10 (map (\<lambda>i. expected_hotel (clock i) (ps ! i)) [0..<length ps])\<rparr>"
proof
  have url: "opt_chain (any_search_metadata p) google_flights_url
      = (case any_search_metadata p of None \<Rightarrow> None | Some m \<Rightarrow> google_flights_url m)"
    by (simp add: opt_chain_def)
  show "simplifyFlightResponse_any (Some p) =
           Inr \<lparr>summary =
                  \<lparr>searchParams = any_search_parameters p,
                   totalResults = length bs + length os,
                   priceRange =
                     expected_range (map (\<lambda>opt. number_or_zero (option_price opt)) (bs @ os)),
                   googleFlightsUrl =
                     (case any_search_metadata p of None \<Rightarrow> None
                      | Some m \<Rightarrow> google_flights_url m)\<rparr>,
                bestFlights = map expected_flight bs,
                otherFlights = take 5 (map expected_flight os),
                priceInsights = any_price_insights p\<rparr>"
    unfolding simplifyFlightResponse_any_def option.case b o map_e_flight_objects bind_e_Inr
      Let_def price_range_of_expected expected_flight_prices url length_map
    by (rule refl)
next
  show "simplifyHotelResponse_any clock (Some q) =
           Inr \<lparr>hotel_summary =
                  \<lparr>hotel_searchParams = any_hotel_search_parameters q,
                   hotel_totalResults = length ps,
                   hotel_priceRange =
                     expected_range (filter (\<lambda>n. 0 < n) (map nightly_price ps))\<rparr>,
                hotel_properties =
                  take 10 (map (\<lambda>i. expected_hotel (clock i) (ps ! i)) [0..<length ps])\<rparr>"
    unfolding simplifyHotelResponse_any_def option.case h map_e_hotel_objects bind_e_Inr
      Let_def price_range_of_expected enumerate_upt expected_hotel_prices
    by simp
qed

text \<open>
  Claim C9, amended, at a flight result with the option \<^verbatim>\<open>{}\<close> and the round-trip
  option, and at a hotel result with a property without a token and a property with a
  nightly rate of 120.
\<close>

theorem C9_total_witness:
  "simplifyFlightResponse_any (Some partial_flights) =
     Inr \<lparr>summary =
            \<lparr>searchParams = None, totalResults = 2,
             priceRange = Some \<lparr>range_min = 0, range_max = 926\<rparr>,
             googleFlightsUrl = None\<rparr>,
          bestFlights = [expected_flight bare_option],
          otherFlights = [expected_flight roundtrip_option],
          priceInsights = None\<rparr>
   \<and> simplifyHotelResponse_any (const_clock 7) (Some partial_hotels) =
     Inr \<lparr>hotel_summary =
            \<lparr>hotel_searchParams = None, hotel_totalResults = 2,
             hotel_priceRange = Some \<lparr>range_min = 120, range_max = 120\<rparr>\<rparr>,
          hotel_properties =
            [expected_hotel 7 tokenless_property, expected_hotel 7 (rated_property 120)]\<rparr>
   \<and> airline (expected_flight bare_option) = ''Unknown''
   \<and> hotelId (expected_hotel 7 tokenless_property) = ''HTL-Grand-Hotel-7''"
proof -
  have b: "obj_or (any_best_flights partial_flights) [] = map Some [bare_option]"
    by (simp add: partial_flights_def obj_or_def)
  have o: "obj_or (any_other_flights partial_flights) [] = map Some [roundtrip_option]"
    by (simp add: partial_flights_def obj_or_def)
  have h: "obj_or (any_properties partial_hotels) []
      = map Some [tokenless_property, rated_property 120]"
    by (simp add: partial_hotels_def obj_or_def)
  have r1: "expected_range (map (\<lambda>opt. number_or_zero (option_price opt))
              ([bare_option] @ [roundtrip_option])) = Some \<lparr>range_min = 0, range_max = 926\<rparr>"
    by (simp add: expected_range_def number_or_zero_def bare_option_def roundtrip_option_def)
  have r2: "expected_range (filter (\<lambda>n. 0 < n)
              (map nightly_price [tokenless_property, rated_property 120]))
      = Some \<lparr>range_min = 120, range_max = 120\<rparr>"
    by (simp add: expected_range_def nightly_price_def number_or_zero_def
          tokenless_property_def rated_property_def bare_property_def)
  have e1: "airline (expected_flight bare_option) = ''Unknown''"
    by (simp add: expected_flight_def bare_option_def first_leg_def)
  have e2: "hotelId (expected_hotel 7 tokenless_property) = ''HTL-Grand-Hotel-7''"
    by code_simp
  have u: "[0..<length [tokenless_property, rated_property 120]] = [0, 1]"
    by (simp add: upt_rec)
  show ?thesis
    using C9_total_on_well_formed_payloads [OF b o h, of "const_clock 7"] e1 e2
    unfolding r1 r2 u
    by (simp add: partial_flights_def partial_hotels_def const_clock_def)
qed

end
